theory Spec2Isabelle
  imports Main "HOL-Library.Char_ord" "HOL-Library.List_Lexorder"
begin

section \<open>py-nosql: the storage stack and the document layer\<close>

text \<open>
  A shallow embedding of \<^verbatim>\<open>src/py_nosql\<close>: the write-ahead log (\<^verbatim>\<open>storage/wal.py\<close>),
  the sorted tables (\<^verbatim>\<open>storage/sstable.py\<close>), the engine (\<^verbatim>\<open>storage/lsm.py\<close>), the
  schema validator (\<^verbatim>\<open>document/schema.py\<close>) and the collection
  (\<^verbatim>\<open>document/collection.py\<close>).

  Conventions of the embedding.
  \<^item> A Python exception is a value of \<open>error\<close>. A method that mutates its object and may
    raise returns a pair: the outcome (\<open>Inl\<close> the exception, \<open>Inr\<close> the returned
    value) and the state as the method left it, since a raise keeps the mutations made
    before it.
  \<^item> A Python \<^verbatim>\<open>dict\<close> is an association list with distinct keys in insertion order
    (\<open>dict_set\<close> is \<^verbatim>\<open>d[k] = v\<close>, \<open>map_of\<close> is \<^verbatim>\<open>d.get(k)\<close>).
  \<^item> \<^verbatim>\<open>Optional[str]\<close> is \<open>'v option\<close>: \<open>None\<close> is Python's \<^verbatim>\<open>None\<close>, the tombstone.
  \<^item> A text file is the list of its lines, each line classified by what
    \<^verbatim>\<open>line.strip()\<close> and \<^verbatim>\<open>json.loads(line)\<close> make of it. A byte offset into a data
    file is the number of lines before it (\<^verbatim>\<open>f.tell()\<close> is only taken between two
    records).
  \<^item> \<^verbatim>\<open>time.time()\<close> is an argument \<open>ts\<close> of the methods that read the clock.
\<close>

subsection \<open>Exceptions\<close>

text \<open>The \<^verbatim>\<open>ValueError\<close>s of \<^verbatim>\<open>Schema.validate\<close> differ by their message only; \<open>vmsg\<close>
  is the message's rule, the string its field. \<open>IntDigits\<close> is the \<^verbatim>\<open>ValueError\<close> of the
  interpreter for an integer beyond its limit of decimal digits (it names no field).\<close>

datatype vmsg = Duplicate | LengthRule | NumericRule | EnumRule | RefRule | IntDigits

datatype error =
    TypeError
  | FieldTypeError string
  | ValueError vmsg string
  | KeyError
  | AttributeError
  | ZeroDivisionError
  | JSONDecodeError
  | FileNotFoundError

subsection \<open>Dictionaries and lines\<close>

fun dict_set :: "('k \<times> 'a) list \<Rightarrow> 'k \<Rightarrow> 'a \<Rightarrow> ('k \<times> 'a) list" where
  "dict_set [] k v = [(k, v)]"
| "dict_set ((k', v') # d) k v =
     (if k' = k then (k, v) # d else (k', v') # dict_set d k v)"

text \<open>
  One line of a log or data file. \<open>Blank\<close>: \<^verbatim>\<open>line.strip()\<close> is empty. \<open>Corrupt\<close>:
  \<^verbatim>\<open>json.loads\<close> raises (a torn or garbled record). \<open>Obj op key value\<close>: the line is a
  JSON object; \<open>op\<close> and \<open>key\<close> are its members \<^verbatim>\<open>"op"\<close> and \<^verbatim>\<open>"key"\<close> (\<open>None\<close> when
  the object has no such member, so that \<^verbatim>\<open>rec["op"]\<close> raises \<^verbatim>\<open>KeyError\<close>), and
  \<open>value\<close> is \<^verbatim>\<open>rec.get("value")\<close>.
\<close>

datatype 'v line = Blank | Corrupt | Obj "string option" "string option" "'v option"

subsection \<open>wal.py\<close>

record 'v WAL =
  wal_lines :: "'v line list"
  archived :: "(int \<times> 'v line list) list"

definition WAL_append_put :: "'v WAL \<Rightarrow> string \<Rightarrow> 'v option \<Rightarrow> 'v WAL" where
  "WAL_append_put w key val =
     w\<lparr>wal_lines := wal_lines w @ [Obj (Some ''put'') (Some key) val]\<rparr>"

text \<open>Class \<^verbatim>\<open>WAL\<close> defines \<^verbatim>\<open>append_put\<close>, \<^verbatim>\<open>replay\<close>, \<^verbatim>\<open>reset\<close> and \<^verbatim>\<open>close\<close> and
  nothing else: the attribute lookup \<^verbatim>\<open>self.wal.append_del\<close> raises.\<close>

definition WAL_append_del :: "'v WAL \<Rightarrow> string \<Rightarrow> error + 'v WAL" where
  "WAL_append_del w key = Inl AttributeError"

fun replay_loop ::
  "(string \<times> 'v option) list \<Rightarrow> 'v line list \<Rightarrow> error + (string \<times> 'v option) list" where
  "replay_loop mem [] = Inr mem"
| "replay_loop mem (Blank # ls) = replay_loop mem ls"
| "replay_loop mem (Corrupt # ls) = Inl JSONDecodeError"
| "replay_loop mem (Obj op k v # ls) =
     (case op of
        None \<Rightarrow> Inl KeyError
      | Some opname \<Rightarrow>
          if opname = ''put'' then
            (case k of None \<Rightarrow> Inl KeyError
             | Some key \<Rightarrow> replay_loop (dict_set mem key v) ls)
          else if opname = ''del'' then
            (case k of None \<Rightarrow> Inl KeyError
             | Some key \<Rightarrow> replay_loop (dict_set mem key None) ls)
          else replay_loop mem ls)"

definition WAL_replay :: "'v WAL \<Rightarrow> error + (string \<times> 'v option) list" where
  "WAL_replay w = replay_loop [] (wal_lines w)"

definition WAL_reset :: "int \<Rightarrow> 'v WAL \<Rightarrow> 'v WAL" where
  "WAL_reset ts w = \<lparr>wal_lines = [], archived = dict_set (archived w) ts (wal_lines w)\<rparr>"

subsection \<open>sstable.py\<close>

datatype path = Sst int | SstCompacted int

text \<open>The data directory: the data files and, under the data file's path, the index files
  (\<^verbatim>\<open>data_path.with_suffix(data_path.suffix + ".idx")\<close>).\<close>

record 'v disk =
  files :: "path \<rightharpoonup> 'v line list"
  idx_files :: "path \<rightharpoonup> (string \<times> nat) list"

record SSTable =
  data_path :: path
  index :: "(string \<times> nat) list"

definition INDEX_SAMPLE :: int where
  "INDEX_SAMPLE = 0"

text \<open>\<^verbatim>\<open>index = Dict[str, int] = {}\<close> is a chained assignment: after binding the first
  target it assigns into the subscription \<^verbatim>\<open>Dict[str, int]\<close>, and \<^verbatim>\<open>typing.Dict\<close> supports
  no item assignment.\<close>

definition typing_Dict_setitem :: "error + unit" where
  "typing_Dict_setitem = Inl TypeError"

definition SSTable_init :: "'v disk \<Rightarrow> path \<Rightarrow> error + SSTable" where
  "SSTable_init d p =
     (case typing_Dict_setitem of
        Inl e \<Rightarrow> Inl e
      | Inr u \<Rightarrow>
          Inr \<lparr>data_path = p,
               index = (case idx_files d p of None \<Rightarrow> [] | Some ix \<Rightarrow> ix)\<rparr>)"

text \<open>The loop of \<^verbatim>\<open>SSTable.write\<close> over \<^verbatim>\<open>enumerate(items)\<close>; \<open>n\<close> is
  \<^verbatim>\<open>SSTable.INDEX_SAMPLE\<close>, \<open>out\<close> the lines written so far. The record is written before
  \<^verbatim>\<open>i % n\<close> is evaluated.\<close>

fun write_loop ::
  "int \<Rightarrow> nat \<Rightarrow> (string \<times> 'v option) list \<Rightarrow> 'v line list \<Rightarrow> (string \<times> nat) list
   \<Rightarrow> (error + unit) \<times> 'v line list \<times> (string \<times> nat) list" where
  "write_loop n i [] out ix = (Inr (), out, ix)"
| "write_loop n i ((k, v) # items) out ix =
     (let pos = length out; out' = out @ [Obj None (Some k) v] in
      if n = 0 then (Inl ZeroDivisionError, out', ix)
      else if int i mod n = 0 then write_loop n (Suc i) items out' (dict_set ix k pos)
      else write_loop n (Suc i) items out' ix)"

definition SSTable_write ::
  "'v disk \<Rightarrow> path \<Rightarrow> (string \<times> 'v option) list \<Rightarrow> (error + SSTable) \<times> 'v disk" where
  "SSTable_write d p items =
     (let sorted_items = sort_key fst items in
      case typing_Dict_setitem of
        Inl e \<Rightarrow> (Inl e, d)
      | Inr u \<Rightarrow>
          (case write_loop INDEX_SAMPLE 0 sorted_items [] [] of
             (Inl e, out, ix) \<Rightarrow> (Inl e, d\<lparr>files := (files d)(p \<mapsto> out)\<rparr>)
           | (Inr u', out, ix) \<Rightarrow>
               (let d' = d\<lparr>files := (files d)(p \<mapsto> out),
                           idx_files := (idx_files d)(p \<mapsto> ix)\<rparr>
                in (SSTable_init d' p, d'))))"

text \<open>\<^verbatim>\<open>json.loads(line)\<close>, then \<^verbatim>\<open>rec["key"], rec.get("value")\<close>.\<close>

fun parse_record :: "'v line \<Rightarrow> error + (string \<times> 'v option)" where
  "parse_record Blank = Inl JSONDecodeError"
| "parse_record Corrupt = Inl JSONDecodeError"
| "parse_record (Obj op None v) = Inl KeyError"
| "parse_record (Obj op (Some k) v) = Inr (k, v)"

text \<open>The generator \<^verbatim>\<open>_scan_from\<close> is the list of the outcomes of its successive steps;
  a consumer that stops early never sees the later ones.\<close>

definition SSTable_scan_from ::
  "'v disk \<Rightarrow> SSTable \<Rightarrow> nat \<Rightarrow> (error + (string \<times> 'v option)) list" where
  "SSTable_scan_from d sst start_offset =
     (case files d (data_path sst) of
        None \<Rightarrow> [Inl FileNotFoundError]
      | Some ls \<Rightarrow> map parse_record (filter (\<lambda>l. l \<noteq> Blank) (drop start_offset ls)))"

text \<open>The \<^verbatim>\<open>for k, v in self._scan_from(start_offset)\<close> loop of \<^verbatim>\<open>SSTable.get\<close>.\<close>

fun get_scan :: "(error + (string \<times> 'v option)) list \<Rightarrow> string \<Rightarrow> error + 'v option" where
  "get_scan [] key = Inr None"
| "get_scan (Inl e # rest) key = Inl e"
| "get_scan (Inr (k, v) # rest) key =
     (if k = key then Inr v else if key < k then Inr None else get_scan rest key)"

text \<open>In \<^verbatim>\<open>SSTable.get\<close> the scan loop is indented under the \<^verbatim>\<open>else\<close>: with a candidate
  the method computes \<^verbatim>\<open>start_offset\<close> and falls off its end, returning \<^verbatim>\<open>None\<close>.\<close>

definition SSTable_get :: "'v disk \<Rightarrow> SSTable \<Rightarrow> string \<Rightarrow> error + 'v option" where
  "SSTable_get d sst key =
     (let candidates = filter (\<lambda>k. k \<le> key) (map fst (index sst)) in
      if candidates \<noteq> [] then
        (let start_key = foldr max candidates (hd candidates);
             start_offset = map_of (index sst) start_key
         in Inr None)
      else get_scan (SSTable_scan_from d sst 0) key)"

subsection \<open>lsm.py\<close>

record 'v LSMEngine =
  disk :: "'v disk"
  wal :: "'v WAL"
  memtable :: "(string \<times> 'v option) list"
  memtable_limit :: int
  sstables :: "SSTable list"

text \<open>\<^verbatim>\<open>flush\<close>; the clock reading \<open>ts\<close> names the new table and the archived log.\<close>

definition flush :: "int \<Rightarrow> 'v LSMEngine \<Rightarrow> (error + unit) \<times> 'v LSMEngine" where
  "flush ts e =
     (if memtable e = [] then (Inr (), e)
      else
        (case SSTable_write (disk e) (Sst ts) (memtable e) of
           (Inl err, d) \<Rightarrow> (Inl err, e\<lparr>disk := d\<rparr>)
         | (Inr sst, d) \<Rightarrow>
             (Inr (), e\<lparr>disk := d, wal := WAL_reset ts (wal e), memtable := [],
                        sstables := sstables e @ [sst]\<rparr>)))"

definition LSMEngine_put ::
  "int \<Rightarrow> 'v LSMEngine \<Rightarrow> string \<Rightarrow> 'v \<Rightarrow> (error + unit) \<times> 'v LSMEngine" where
  "LSMEngine_put ts e key val =
     (let e1 = e\<lparr>wal := WAL_append_put (wal e) key (Some val)\<rparr>;
          e2 = e1\<lparr>memtable := dict_set (memtable e1) key (Some val)\<rparr>
      in if memtable_limit e2 \<le> int (length (memtable e2)) then flush ts e2
         else (Inr (), e2))"

definition LSMEngine_delete ::
  "int \<Rightarrow> 'v LSMEngine \<Rightarrow> string \<Rightarrow> (error + unit) \<times> 'v LSMEngine" where
  "LSMEngine_delete ts e key =
     (case WAL_append_del (wal e) key of
        Inl err \<Rightarrow> (Inl err, e)
      | Inr w \<Rightarrow>
          (let e2 = e\<lparr>wal := w, memtable := dict_set (memtable e) key None\<rparr>
           in if memtable_limit e2 \<le> int (length (memtable e2)) then flush ts e2
              else (Inr (), e2)))"

definition exists_in_sstable :: "'v disk \<Rightarrow> SSTable \<Rightarrow> string \<Rightarrow> error + bool" where
  "exists_in_sstable d sst key =
     (case SSTable_get d sst key of Inl e \<Rightarrow> Inl e | Inr v \<Rightarrow> Inr (v \<noteq> None))"

text \<open>The loop of \<^verbatim>\<open>LSMEngine.get\<close> over \<^verbatim>\<open>reversed(self.sstables)\<close>. Its test is
  \<^verbatim>\<open>v is not None or (v is None and self._exists_in_sstable(sst, key))\<close>.\<close>

fun get_sstables :: "'v disk \<Rightarrow> SSTable list \<Rightarrow> string \<Rightarrow> error + 'v option" where
  "get_sstables d [] key = Inr None"
| "get_sstables d (sst # rest) key =
     (case SSTable_get d sst key of
        Inl e \<Rightarrow> Inl e
      | Inr v \<Rightarrow>
          if v \<noteq> None then Inr v
          else
            (case exists_in_sstable d sst key of
               Inl e \<Rightarrow> Inl e
             | Inr found \<Rightarrow> if found then Inr v else get_sstables d rest key))"

definition LSMEngine_get :: "'v LSMEngine \<Rightarrow> string \<Rightarrow> error + 'v option" where
  "LSMEngine_get e key =
     (case map_of (memtable e) key of
        Some v \<Rightarrow> Inr v
      | None \<Rightarrow> get_sstables (disk e) (rev (sstables e)) key)"

text \<open>The merge of \<^verbatim>\<open>compact\<close>: the lines of one file, then the files newest first.\<close>

fun merge_lines ::
  "(string \<times> 'v option) list \<Rightarrow> 'v line list \<Rightarrow> error + (string \<times> 'v option) list" where
  "merge_lines merged [] = Inr merged"
| "merge_lines merged (Blank # ls) = merge_lines merged ls"
| "merge_lines merged (Corrupt # ls) = Inl JSONDecodeError"
| "merge_lines merged (Obj op None v # ls) = Inl KeyError"
| "merge_lines merged (Obj op (Some k) v # ls) =
     (if map_of merged k = None then merge_lines (dict_set merged k v) ls
      else merge_lines merged ls)"

fun merge_sstables ::
  "'v disk \<Rightarrow> (string \<times> 'v option) list \<Rightarrow> SSTable list
   \<Rightarrow> error + (string \<times> 'v option) list" where
  "merge_sstables d merged [] = Inr merged"
| "merge_sstables d merged (sst # rest) =
     (case files d (data_path sst) of
        None \<Rightarrow> Inl FileNotFoundError
      | Some ls \<Rightarrow>
          (case merge_lines merged ls of
             Inl e \<Rightarrow> Inl e
           | Inr merged' \<Rightarrow> merge_sstables d merged' rest))"

text \<open>\<^verbatim>\<open>os.remove\<close> of the data and the index file of every old table, a missing file
  ignored.\<close>

fun remove_sstables :: "'v disk \<Rightarrow> SSTable list \<Rightarrow> 'v disk" where
  "remove_sstables d [] = d"
| "remove_sstables d (sst # rest) =
     remove_sstables
       (d\<lparr>files := (files d)(data_path sst := None),
          idx_files := (idx_files d)(data_path sst := None)\<rparr>) rest"

definition compact :: "int \<Rightarrow> 'v LSMEngine \<Rightarrow> (error + unit) \<times> 'v LSMEngine" where
  "compact ts e =
     (if sstables e = [] then (Inr (), e)
      else
        (case merge_sstables (disk e) [] (rev (sstables e)) of
           Inl err \<Rightarrow> (Inl err, e)
         | Inr merged \<Rightarrow>
             (let live = filter (\<lambda>kv. snd kv \<noteq> None) merged in
              case SSTable_write (disk e) (SstCompacted ts) live of
                (Inl err, d) \<Rightarrow> (Inl err, e\<lparr>disk := d\<rparr>)
              | (Inr new_sst, d) \<Rightarrow>
                  (Inr (), e\<lparr>disk := remove_sstables d (sstables e),
                            sstables := [new_sst]\<rparr>))))"

text \<open>
  \<^verbatim>\<open>LSMEngine.__init__\<close> on a data directory: \<open>w\<close> is its log, \<open>d\<close> its table files and
  \<open>listing\<close> what \<^verbatim>\<open>sorted(self.dir.glob('sst_*.jsonl'))\<close> returns. The memtable is the
  replayed log; every listed file is wrapped by the constructor of \<^verbatim>\<open>SSTable\<close>.
\<close>

fun init_sstables :: "'v disk \<Rightarrow> path list \<Rightarrow> error + SSTable list" where
  "init_sstables d [] = Inr []"
| "init_sstables d (fp # fps) =
     (case SSTable_init d fp of
        Inl e \<Rightarrow> Inl e
      | Inr sst \<Rightarrow>
          (case init_sstables d fps of
             Inl e \<Rightarrow> Inl e
           | Inr rest \<Rightarrow> Inr (sst # rest)))"

definition LSMEngine_init ::
  "'v disk \<Rightarrow> 'v WAL \<Rightarrow> path list \<Rightarrow> int \<Rightarrow> error + 'v LSMEngine" where
  "LSMEngine_init d w listing limit =
     (case WAL_replay w of
        Inl e \<Rightarrow> Inl e
      | Inr mem \<Rightarrow>
          (case init_sstables d listing of
             Inl e \<Rightarrow> Inl e
           | Inr tables \<Rightarrow>
               Inr \<lparr>disk = d, wal = w, memtable = mem, memtable_limit = limit,
                    sstables = tables\<rparr>))"

text \<open>
  The engines a run of the program can hold: what the constructor returns on a directory
  (the listing names the table files that exist), and what a method call leaves behind,
  whether it returned or raised.
\<close>

inductive reachable :: "'v LSMEngine \<Rightarrow> bool" where
  opened: "set listing = dom (files d) \<Longrightarrow> LSMEngine_init d w listing limit = Inr e
             \<Longrightarrow> reachable e"
| after_put: "reachable e \<Longrightarrow> reachable (snd (LSMEngine_put ts e key val))"
| after_delete: "reachable e \<Longrightarrow> reachable (snd (LSMEngine_delete ts e key))"
| after_flush: "reachable e \<Longrightarrow> reachable (snd (flush ts e))"
| after_compact: "reachable e \<Longrightarrow> reachable (snd (compact ts e))"

subsection \<open>schema.py\<close>

text \<open>
  A document is a \<^verbatim>\<open>dict\<close> from field names to values; the values of the model are
  strings and integers.
\<close>

datatype val = VStr string | VInt int

type_synonym doc = "(string \<times> val) list"

text \<open>
  The module \<^verbatim>\<open>json\<close> that \<^verbatim>\<open>collection.py\<close> imports is not code of the repository. A
  collection carries it as two functions, so that nothing is assumed about them:
  \<^verbatim>\<open>json.dumps\<close> returns the stored text of a document or raises, \<^verbatim>\<open>json.loads\<close> reads
  a document from a stored text or raises. \<open>'s\<close> is the type of the stored texts, the
  values the engine keeps.
\<close>

record 's json_module =
  dumps :: "doc \<Rightarrow> error + 's"
  loads :: "'s \<Rightarrow> error + doc"

datatype pytype = PyStr | PyInt

fun isinstance :: "val \<Rightarrow> pytype \<Rightarrow> bool" where
  "isinstance (VStr s) PyStr = True"
| "isinstance (VInt i) PyInt = True"
| "isinstance v t = False"

text \<open>The rule set of one field. A member is \<open>None\<close> when the rule's key is not in the
  \<^verbatim>\<open>dict\<close>; \<open>rule_unique\<close> holds the flag stored under \<^verbatim>\<open>"unique"\<close>.\<close>

record length_rules =
  len_gt :: "int option"
  len_gte :: "int option"
  len_lt :: "int option"
  len_lte :: "int option"

record rules =
  rule_type :: "pytype option"
  rule_unique :: "bool option"
  rule_length :: "length_rules option"
  rule_gt :: "int option"
  rule_gte :: "int option"
  rule_lt :: "int option"
  rule_lte :: "int option"
  rule_enum :: "val list option"
  rule_ref :: "string option"

record Schema =
  schema_fields :: "(string \<times> rules) list"
  unique_values :: "(string \<times> val list) list"

definition Schema_init :: "(string \<times> rules) list \<Rightarrow> Schema" where
  "Schema_init flds =
     \<lparr>schema_fields = flds,
      unique_values =
        map (\<lambda>fr. (fst fr, [])) (filter (\<lambda>fr. rule_unique (snd fr) = Some True) flds)\<rparr>"

record 's Collection =
  engine :: "'s LSMEngine"
  prefix :: string
  schema :: "Schema option"
  json :: "'s json_module"

text \<open>\<^verbatim>\<open>_from_stored(raw)\<close> is \<^verbatim>\<open>json.loads(raw)\<close>; \<^verbatim>\<open>get\<close> applies it to a value that is
  not \<^verbatim>\<open>None\<close>.\<close>

definition from_stored :: "'s Collection \<Rightarrow> 's \<Rightarrow> error + doc" where
  "from_stored c raw = loads (json c) raw"

definition Collection_get :: "'s Collection \<Rightarrow> string \<Rightarrow> error + doc option" where
  "Collection_get c doc_id =
     (case LSMEngine_get (engine c) (prefix c @ doc_id) of
        Inl e \<Rightarrow> Inl e
      | Inr None \<Rightarrow> Inr None
      | Inr (Some raw) \<Rightarrow>
          (case from_stored c raw of Inl e \<Rightarrow> Inl e | Inr d \<Rightarrow> Inr (Some d)))"

text \<open>Sequencing of two statements, the first of which may raise.\<close>

definition and_then :: "error + unit \<Rightarrow> error + 'a \<Rightarrow> error + 'a" where
  "and_then r k = (case r of Inl e \<Rightarrow> Inl e | Inr u \<Rightarrow> k)"

definition check_type :: "string \<Rightarrow> rules \<Rightarrow> val \<Rightarrow> error + unit" where
  "check_type field r v =
     (case rule_type r of
        None \<Rightarrow> Inr ()
      | Some t \<Rightarrow> if isinstance v t then Inr () else Inl (FieldTypeError field))"

definition check_unique ::
  "Schema \<Rightarrow> doc list \<Rightarrow> string \<Rightarrow> rules \<Rightarrow> val \<Rightarrow> error + unit" where
  "check_unique s existing_docs field r v =
     (if rule_unique r = Some True then
        (if list_ex (\<lambda>d. map_of d field = Some v) existing_docs
         then Inl (ValueError Duplicate field)
         else
           (case map_of (unique_values s) field of
              None \<Rightarrow> Inl KeyError
            | Some seen \<Rightarrow>
                if v \<in> set seen then Inl (ValueError Duplicate field) else Inr ()))
      else Inr ())"

definition violates :: "int option \<Rightarrow> (int \<Rightarrow> bool) \<Rightarrow> bool" where
  "violates bound ok = (case bound of None \<Rightarrow> False | Some b \<Rightarrow> \<not> ok b)"

definition check_length :: "string \<Rightarrow> rules \<Rightarrow> val \<Rightarrow> error + unit" where
  "check_length field r v =
     (case v of
        VInt i \<Rightarrow> Inr ()
      | VStr s \<Rightarrow>
          (case rule_length r of
             None \<Rightarrow> Inr ()
           | Some lr \<Rightarrow>
               if violates (len_gt lr) (\<lambda>b. b < int (length s))
                 then Inl (ValueError LengthRule field)
               else if violates (len_gte lr) (\<lambda>b. b \<le> int (length s))
                 then Inl (ValueError LengthRule field)
               else if violates (len_lt lr) (\<lambda>b. int (length s) < b)
                 then Inl (ValueError LengthRule field)
               else if violates (len_lte lr) (\<lambda>b. int (length s) \<le> b)
                 then Inl (ValueError LengthRule field)
               else Inr ()))"

definition check_numeric :: "string \<Rightarrow> rules \<Rightarrow> val \<Rightarrow> error + unit" where
  "check_numeric field r v =
     (case v of
        VStr s \<Rightarrow> Inr ()
      | VInt i \<Rightarrow>
          if violates (rule_gt r) (\<lambda>b. b < i) then Inl (ValueError NumericRule field)
          else if violates (rule_gte r) (\<lambda>b. b \<le> i) then Inl (ValueError NumericRule field)
          else if violates (rule_lt r) (\<lambda>b. i < b) then Inl (ValueError NumericRule field)
          else if violates (rule_lte r) (\<lambda>b. i \<le> b) then Inl (ValueError NumericRule field)
          else Inr ())"

definition check_enum :: "string \<Rightarrow> rules \<Rightarrow> val \<Rightarrow> error + unit" where
  "check_enum field r v =
     (case rule_enum r of
        None \<Rightarrow> Inr ()
      | Some allowed \<Rightarrow>
          if v \<in> set allowed then Inr () else Inl (ValueError EnumRule field))"

text \<open>The reference check calls \<^verbatim>\<open>ref_collection.get(val)\<close>, which concatenates the
  prefix and \<^verbatim>\<open>val\<close> (a \<^verbatim>\<open>TypeError\<close> for an integer); \<^verbatim>\<open>not\<close> of the result is true
  for \<^verbatim>\<open>None\<close> and for the empty document.\<close>

definition check_ref ::
  "(string \<times> 's Collection) list \<Rightarrow> string \<Rightarrow> rules \<Rightarrow> val \<Rightarrow> error + unit" where
  "check_ref collections field r v =
     (case rule_ref r of
        None \<Rightarrow> Inr ()
      | Some ref_collection_name \<Rightarrow>
          (case map_of collections ref_collection_name of
             None \<Rightarrow> Inr ()
           | Some ref_collection \<Rightarrow>
               (case v of
                  VInt i \<Rightarrow> Inl TypeError
                | VStr ref_id \<Rightarrow>
                    (case Collection_get ref_collection ref_id of
                       Inl e \<Rightarrow> Inl e
                     | Inr None \<Rightarrow> Inl (ValueError RefRule field)
                     | Inr (Some d) \<Rightarrow>
                         if d = [] then Inl (ValueError RefRule field) else Inr ()))))"

text \<open>The body of the loop of \<^verbatim>\<open>validate\<close> for a field whose value is present.\<close>

definition validate_value ::
  "Schema \<Rightarrow> doc list \<Rightarrow> (string \<times> 's Collection) list \<Rightarrow> string \<Rightarrow> rules \<Rightarrow> val
   \<Rightarrow> error + unit" where
  "validate_value s existing_docs collections field r v =
     and_then (check_type field r v)
       (and_then (check_unique s existing_docs field r v)
          (and_then (check_length field r v)
             (and_then (check_numeric field r v)
                (and_then (check_enum field r v)
                   (check_ref collections field r v)))))"

fun validate_loop ::
  "Schema \<Rightarrow> doc \<Rightarrow> doc list \<Rightarrow> (string \<times> 's Collection) list \<Rightarrow> (string \<times> rules) list
   \<Rightarrow> error + bool" where
  "validate_loop s d existing_docs collections [] = Inr True"
| "validate_loop s d existing_docs collections ((field, r) # rest) =
     (case map_of d field of
        None \<Rightarrow> validate_loop s d existing_docs collections rest
      | Some v \<Rightarrow>
          and_then (validate_value s existing_docs collections field r v)
            (validate_loop s d existing_docs collections rest))"

definition Schema_validate ::
  "Schema \<Rightarrow> doc \<Rightarrow> doc list \<Rightarrow> (string \<times> 's Collection) list \<Rightarrow> error + bool" where
  "Schema_validate s d existing_docs collections =
     validate_loop s d existing_docs collections (schema_fields s)"

definition register :: "Schema \<Rightarrow> doc \<Rightarrow> Schema" where
  "register s d =
     s\<lparr>unique_values :=
         map (\<lambda>fv. (fst fv,
                (case map_of d (fst fv) of
                   None \<Rightarrow> snd fv
                 | Some v \<Rightarrow> if v \<in> set (snd fv) then snd fv else snd fv @ [v])))
           (unique_values s)\<rparr>"

subsection \<open>collection.py\<close>

definition startswith :: "string \<Rightarrow> string \<Rightarrow> bool" where
  "startswith k p = (take (length p) k = p)"

text \<open>\<^verbatim>\<open>_to_stored(doc)\<close>: validate against the schema, if any, with no existing documents
  and no collections, then \<^verbatim>\<open>json.dumps(doc)\<close>.\<close>

definition to_stored :: "'s Collection \<Rightarrow> doc \<Rightarrow> error + 's" where
  "to_stored c d =
     (case schema c of
        None \<Rightarrow> dumps (json c) d
      | Some s \<Rightarrow>
          (case Schema_validate s d [] ([] :: (string \<times> 's Collection) list) of
             Inl e \<Rightarrow> Inl e
           | Inr ok \<Rightarrow> dumps (json c) d))"

text \<open>\<^verbatim>\<open>_scan_docs\<close>, run to its end: first the memtable, then the files newest first, with
  the identifiers yielded so far in \<open>seen\<close>.\<close>

fun scan_memtable ::
  "'s Collection \<Rightarrow> (string \<times> 's option) list \<Rightarrow> error + (string \<times> doc) list" where
  "scan_memtable c [] = Inr []"
| "scan_memtable c ((k, v) # rest) =
     (case v of
        None \<Rightarrow> scan_memtable c rest
      | Some raw \<Rightarrow>
          if startswith k (prefix c) then
            (case from_stored c raw of
               Inl e \<Rightarrow> Inl e
             | Inr d \<Rightarrow>
                 (case scan_memtable c rest of
                    Inl e \<Rightarrow> Inl e
                  | Inr out \<Rightarrow> Inr ((drop (length (prefix c)) k, d) # out)))
          else scan_memtable c rest)"

fun scan_lines ::
  "'s Collection \<Rightarrow> 's line list \<Rightarrow> string list \<Rightarrow> (string \<times> doc) list
   \<Rightarrow> error + (string list \<times> (string \<times> doc) list)" where
  "scan_lines c [] seen out = Inr (seen, out)"
| "scan_lines c (Blank # ls) seen out = scan_lines c ls seen out"
| "scan_lines c (Corrupt # ls) seen out = Inl JSONDecodeError"
| "scan_lines c (Obj op None v # ls) seen out = Inl KeyError"
| "scan_lines c (Obj op (Some k) v # ls) seen out =
     (if \<not> startswith k (prefix c) then scan_lines c ls seen out
      else if drop (length (prefix c)) k \<in> set seen then scan_lines c ls seen out
      else
        (case v of
           None \<Rightarrow> scan_lines c ls seen out
         | Some raw \<Rightarrow>
             (case from_stored c raw of
                Inl e \<Rightarrow> Inl e
              | Inr d \<Rightarrow>
                  scan_lines c ls (seen @ [drop (length (prefix c)) k])
                    (out @ [(drop (length (prefix c)) k, d)]))))"

fun scan_sstables ::
  "'s Collection \<Rightarrow> SSTable list \<Rightarrow> string list \<Rightarrow> (string \<times> doc) list
   \<Rightarrow> error + (string list \<times> (string \<times> doc) list)" where
  "scan_sstables c [] seen out = Inr (seen, out)"
| "scan_sstables c (sst # rest) seen out =
     (case files (disk (engine c)) (data_path sst) of
        None \<Rightarrow> Inl FileNotFoundError
      | Some ls \<Rightarrow>
          (case scan_lines c ls seen out of
             Inl e \<Rightarrow> Inl e
           | Inr (seen', out') \<Rightarrow> scan_sstables c rest seen' out'))"

definition scan_docs :: "'s Collection \<Rightarrow> error + (string \<times> doc) list" where
  "scan_docs c =
     (case scan_memtable c (memtable (engine c)) of
        Inl e \<Rightarrow> Inl e
      | Inr out \<Rightarrow>
          (case scan_sstables c (rev (sstables (engine c))) (map fst out) out of
             Inl e \<Rightarrow> Inl e
           | Inr (seen, out') \<Rightarrow> Inr out'))"

text \<open>\<^verbatim>\<open>find_all()\<close> with its default arguments (no filter, no limit): every pair of
  \<^verbatim>\<open>_scan_docs\<close>, a \<^verbatim>\<open>DocumentWrapper(doc_id, doc)\<close> being the pair itself.\<close>

definition find_all :: "'s Collection \<Rightarrow> error + (string \<times> doc) list" where
  "find_all c = scan_docs c"

definition has_unique_rule :: "Schema \<Rightarrow> bool" where
  "has_unique_rule s = list_ex (\<lambda>fr. rule_unique (snd fr) \<noteq> None) (schema_fields s)"

text \<open>The documents gathered for the uniqueness check; \<open>keep\<close> is the filter on the
  identifier (\<^verbatim>\<open>insert\<close> keeps all, \<^verbatim>\<open>update\<close> drops the updated one).\<close>

definition gather_existing :: "'s Collection \<Rightarrow> (string \<Rightarrow> bool) \<Rightarrow> error + doc list" where
  "gather_existing c keep =
     (case schema c of
        None \<Rightarrow> Inr []
      | Some s \<Rightarrow>
          if has_unique_rule s then
            (case find_all c of
               Inl e \<Rightarrow> Inl e
             | Inr found \<Rightarrow> Inr (map snd (filter (\<lambda>w. keep (fst w)) found)))
          else Inr [])"

text \<open>What \<^verbatim>\<open>insert\<close> and \<^verbatim>\<open>update\<close> share from the validation on: validate, store under
  the key, register.\<close>

definition validate_store_register ::
  "int \<Rightarrow> 's Collection \<Rightarrow> string \<Rightarrow> doc \<Rightarrow> doc list \<Rightarrow> (string \<times> 's Collection) list
   \<Rightarrow> (error + string) \<times> 's Collection" where
  "validate_store_register ts c doc_id d existing collections =
     (case (case schema c of
              None \<Rightarrow> Inr True
            | Some s \<Rightarrow> Schema_validate s d existing collections) of
        Inl e \<Rightarrow> (Inl e, c)
      | Inr ok \<Rightarrow>
          (case to_stored c d of
             Inl e \<Rightarrow> (Inl e, c)
           | Inr stored \<Rightarrow>
               (case LSMEngine_put ts (engine c) (prefix c @ doc_id) stored of
                  (Inl e, eng) \<Rightarrow> (Inl e, c\<lparr>engine := eng\<rparr>)
                | (Inr u, eng) \<Rightarrow>
                    (Inr doc_id,
                     c\<lparr>engine := eng,
                       schema := map_option (\<lambda>s. register s d) (schema c)\<rparr>))))"

text \<open>\<^verbatim>\<open>insert(doc, doc_id, collections)\<close>; \<open>uuid\<close> is what \<^verbatim>\<open>str(uuid.uuid4())\<close> returns
  when no identifier is given.\<close>

definition Collection_insert ::
  "int \<Rightarrow> string \<Rightarrow> 's Collection \<Rightarrow> doc \<Rightarrow> string option \<Rightarrow> (string \<times> 's Collection) list
   \<Rightarrow> (error + string) \<times> 's Collection" where
  "Collection_insert ts uuid c d doc_id collections =
     (let new_id = (case doc_id of None \<Rightarrow> uuid | Some given \<Rightarrow> given) in
      case gather_existing c (\<lambda>i. True) of
        Inl e \<Rightarrow> (Inl e, c)
      | Inr existing \<Rightarrow> validate_store_register ts c new_id d existing collections)"

text \<open>\<^verbatim>\<open>Collection.__init__\<close> assigns \<^verbatim>\<open>engine\<close>, \<^verbatim>\<open>prefix\<close> and \<^verbatim>\<open>schema\<close>; nothing
  assigns \<^verbatim>\<open>model_cls\<close>, and the class has no \<^verbatim>\<open>__getattr__\<close>: reading
  \<^verbatim>\<open>self.model_cls\<close> raises.\<close>

definition model_cls :: "'s Collection \<Rightarrow> error + bool" where
  "model_cls c = Inl AttributeError"

definition dict_update :: "doc \<Rightarrow> doc \<Rightarrow> doc" where
  "dict_update base updates = fold (\<lambda>kv b. dict_set b (fst kv) (snd kv)) updates base"

text \<open>\<^verbatim>\<open>update(doc_id, updates, collections)\<close>. In the branch of a true \<^verbatim>\<open>model_cls\<close> the
  code reads \<^verbatim>\<open>cur.__dict__\<close> of a \<^verbatim>\<open>dict\<close>, which raises too.\<close>

definition Collection_update ::
  "int \<Rightarrow> 's Collection \<Rightarrow> string \<Rightarrow> doc \<Rightarrow> (string \<times> 's Collection) list
   \<Rightarrow> (error + unit) \<times> 's Collection" where
  "Collection_update ts c doc_id updates collections =
     (case Collection_get c doc_id of
        Inl e \<Rightarrow> (Inl e, c)
      | Inr None \<Rightarrow> (Inl KeyError, c)
      | Inr (Some cur) \<Rightarrow>
          (case model_cls c of
             Inl e \<Rightarrow> (Inl e, c)
           | Inr typed \<Rightarrow>
               if typed then (Inl AttributeError, c)
               else
                 (let new_doc = dict_update cur updates in
                  case gather_existing c (\<lambda>i. i \<noteq> doc_id) of
                    Inl e \<Rightarrow> (Inl e, c)
                  | Inr existing \<Rightarrow>
                      (case validate_store_register ts c doc_id new_doc existing
                              collections of
                         (Inl e, c') \<Rightarrow> (Inl e, c')
                       | (Inr i, c') \<Rightarrow> (Inr (), c')))))"

section \<open>What the specification asks for\<close>

text \<open>The definitions of this section follow the words of the specification, not the
  code; the properties below compare the two.\<close>





text \<open>``\<^verbatim>\<open>replay\<close> folds the log into a mapping: a put sets key \<open>\<rightarrow>\<close> value; a del sets
  key \<open>\<rightarrow>\<close> absent.'' A well-formed record is a put or a del with its key.\<close>

fun wal_record :: "'v line \<Rightarrow> bool" where
  "wal_record (Obj (Some opname) (Some k) v) = (opname = ''put'' \<or> opname = ''del'')"
| "wal_record l = False"

fun apply_record :: "(string \<rightharpoonup> 'v option) \<Rightarrow> 'v line \<Rightarrow> (string \<rightharpoonup> 'v option)" where
  "apply_record m (Obj (Some opname) (Some k) v) =
     (if opname = ''put'' then m(k \<mapsto> v)
      else if opname = ''del'' then m(k \<mapsto> None)
      else m)"
| "apply_record m l = m"

definition fold_records :: "'v line list \<Rightarrow> (string \<rightharpoonup> 'v option)" where
  "fold_records ls = foldl apply_record Map.empty ls"

section \<open>Concrete states\<close>

subsection \<open>Engines and logs\<close>

definition no_wal :: "'v WAL" where
  "no_wal = \<lparr>wal_lines = [], archived = []\<rparr>"

definition no_files :: "'v disk" where
  "no_files = \<lparr>files = Map.empty, idx_files = Map.empty\<rparr>"

text \<open>An empty engine opened with \<^verbatim>\<open>memtable_limit=1\<close>.\<close>

definition small_engine :: "string LSMEngine" where
  "small_engine =
     \<lparr>disk = no_files, wal = no_wal, memtable = [], memtable_limit = 1, sstables = []\<rparr>"



text \<open>A log of one put followed by a torn line.\<close>

definition torn_wal :: "string WAL" where
  "torn_wal =
     \<lparr>wal_lines = [Obj (Some ''put'') (Some ''a'') (Some ''1''), Corrupt], archived = []\<rparr>"

text \<open>An empty engine opened with the default limit.\<close>

definition empty_engine :: "'v LSMEngine" where
  "empty_engine =
     \<lparr>disk = no_files, wal = no_wal, memtable = [], memtable_limit = 2000, sstables = []\<rparr>"

subsection \<open>The json module on the documents of the model\<close>

text \<open>
  The concrete states use the \<^verbatim>\<open>json\<close> module as it acts on the documents of the model.
  The text \<^verbatim>\<open>json.dumps\<close> returns for a document is represented by the document
  \<^verbatim>\<open>json.loads\<close> reads from it, as the lines of a file are: on a \<^verbatim>\<open>dict\<close> with string
  keys and string and integer values the round trip returns the document. Both functions
  raise \<^verbatim>\<open>ValueError\<close> on an integer of more decimal digits than the interpreter converts
  (4300 by default, from CPython 3.11). The general properties below assume nothing of
  this: they hold for whatever module a collection carries.
\<close>

datatype json_text = JsonText doc

definition int_str_limit :: int where
  "int_str_limit = 10 ^ 4300"

fun serialisable :: "val \<Rightarrow> bool" where
  "serialisable (VStr s) = True"
| "serialisable (VInt n) = (- int_str_limit < n \<and> n < int_str_limit)"

definition json_dumps :: "doc \<Rightarrow> error + json_text" where
  "json_dumps d =
     (if list_all (\<lambda>kv. serialisable (snd kv)) d then Inr (JsonText d)
      else Inl (ValueError IntDigits []))"

fun json_loads :: "json_text \<Rightarrow> error + doc" where
  "json_loads (JsonText d) =
     (if list_all (\<lambda>kv. serialisable (snd kv)) d then Inr d
      else Inl (ValueError IntDigits []))"

definition python_json :: "json_text json_module" where
  "python_json = \<lparr>dumps = json_dumps, loads = json_loads\<rparr>"

subsection \<open>Documents and collections\<close>

definition bob :: doc where
  "bob = [(''name'', VStr ''Bob''), (''age'', VInt 30)]"

definition no_rules :: rules where
  "no_rules =
     \<lparr>rule_type = None, rule_unique = None, rule_length = None, rule_gt = None,
      rule_gte = None, rule_lt = None, rule_lte = None, rule_enum = None, rule_ref = None\<rparr>"

text \<open>A collection without schema, and one whose schema types \<^verbatim>\<open>age\<close> and makes
  \<^verbatim>\<open>name\<close> unique.\<close>

definition plain_users :: "json_text Collection" where
  "plain_users =
     \<lparr>engine = empty_engine, prefix = ''users:'', schema = None, json = python_json\<rparr>"

definition user_schema :: Schema where
  "user_schema =
     Schema_init
       [(''age'', no_rules\<lparr>rule_type := Some PyInt\<rparr>),
        (''name'', no_rules\<lparr>rule_type := Some PyStr, rule_unique := Some True\<rparr>)]"

definition users :: "json_text Collection" where
  "users =
     \<lparr>engine = empty_engine, prefix = ''users:'', schema = Some user_schema,
      json = python_json\<rparr>"

text \<open>The states a delete of \<^verbatim>\<open>users:1\<close> would lead to if it worked and tables could be
  written: its tombstone in the memtable, or in a newer table, above the value in an older
  table.\<close>

definition bob_table_disk :: "json_text disk" where
  "bob_table_disk =
     \<lparr>files = [Sst 1 \<mapsto> [Obj None (Some ''users:1'') (Some (JsonText bob))]],
      idx_files = Map.empty\<rparr>"

definition deleted_in_memtable :: "json_text Collection" where
  "deleted_in_memtable =
     \<lparr>engine = \<lparr>disk = bob_table_disk, wal = no_wal, memtable = [(''users:1'', None)],
                memtable_limit = 2000, sstables = [\<lparr>data_path = Sst 1, index = []\<rparr>]\<rparr>,
      prefix = ''users:'', schema = None, json = python_json\<rparr>"

definition bob_tombstone_disk :: "json_text disk" where
  "bob_tombstone_disk =
     \<lparr>files = [Sst 1 \<mapsto> [Obj None (Some ''users:1'') (Some (JsonText bob))],
               Sst 2 \<mapsto> [Obj None (Some ''users:1'') None]],
      idx_files = Map.empty\<rparr>"

definition deleted_in_sstable :: "json_text Collection" where
  "deleted_in_sstable =
     \<lparr>engine = \<lparr>disk = bob_tombstone_disk, wal = no_wal, memtable = [],
                memtable_limit = 2000,
                sstables = [\<lparr>data_path = Sst 1, index = []\<rparr>,
                            \<lparr>data_path = Sst 2, index = []\<rparr>]\<rparr>,
      prefix = ''users:'', schema = None, json = python_json\<rparr>"

text \<open>The two collections after \<^verbatim>\<open>insert(bob, "1")\<close>.\<close>

definition bob_stored :: "json_text Collection" where
  "bob_stored =
     plain_users
       \<lparr>engine :=
          empty_engine
            \<lparr>wal := \<lparr>wal_lines = [Obj (Some ''put'') (Some ''users:1'') (Some (JsonText bob))],
                      archived = []\<rparr>,
             memtable := [(''users:1'', Some (JsonText bob))]\<rparr>\<rparr>"

definition users_with_bob :: "json_text Collection" where
  "users_with_bob =
     users
       \<lparr>engine :=
          empty_engine
            \<lparr>wal := \<lparr>wal_lines = [Obj (Some ''put'') (Some ''users:1'') (Some (JsonText bob))],
                      archived = []\<rparr>,
             memtable := [(''users:1'', Some (JsonText bob))]\<rparr>,
        schema :=
          Some (user_schema\<lparr>unique_values := [(''name'', [VStr ''Bob''])]\<rparr>)\<rparr>"

section \<open>Properties\<close>

subsection \<open>The json module on small integers\<close>

lemma limit_above_1000: "(1000::int) \<le> int_str_limit"
proof -
  have a: "(10::int) ^ 3 \<le> 10 ^ 4300"
    by (rule power_increasing) simp_all
  have b: "(1000::int) = 10 ^ 3"
    by simp
  show ?thesis
    unfolding int_str_limit_def b by (rule a)
qed

lemma small_below_limit:
  "n < 1000 \<Longrightarrow> (n < int_str_limit) = True"
  "- 1000 < n \<Longrightarrow> (- int_str_limit < n) = True"
  using limit_above_1000 by simp_all

subsection \<open>Unfolding the model\<close>

lemmas storage_defs =
  Let_def WAL_append_put_def WAL_append_del_def WAL_replay_def WAL_reset_def
  typing_Dict_setitem_def SSTable_init_def SSTable_write_def SSTable_scan_from_def
  SSTable_get_def flush_def LSMEngine_put_def LSMEngine_delete_def exists_in_sstable_def
  LSMEngine_get_def compact_def LSMEngine_init_def

lemmas document_defs =
  Schema_init_def from_stored_def Collection_get_def and_then_def check_type_def
  check_unique_def violates_def check_length_def check_numeric_def check_enum_def
  check_ref_def validate_value_def Schema_validate_def register_def startswith_def
  to_stored_def scan_docs_def find_all_def has_unique_rule_def gather_existing_def
  validate_store_register_def Collection_insert_def model_cls_def dict_update_def
  Collection_update_def

lemmas state_defs =
  no_wal_def no_files_def small_engine_def torn_wal_def bob_def no_rules_def
  empty_engine_def json_dumps_def python_json_def plain_users_def user_schema_def
  users_def bob_table_disk_def bob_tombstone_disk_def deleted_in_memtable_def
  deleted_in_sstable_def bob_stored_def users_with_bob_def small_below_limit

subsection \<open>Dictionaries\<close>

lemma map_of_dict_set: "map_of (dict_set d k v) = (map_of d)(k \<mapsto> v)"
  by (induction d) (auto simp: fun_eq_iff)

lemma keys_dict_set: "set (map fst (dict_set d k v)) = insert k (set (map fst d))"
  by (induction d k v rule: dict_set.induct) (simp_all add: insert_commute)

lemma distinct_dict_set:
  "distinct (map fst d) \<Longrightarrow> distinct (map fst (dict_set d k v))"
proof (induction d k v rule: dict_set.induct)
  case (1 k v)
  show ?case by simp
next
  case (2 k' v' d k v)
  show ?case
  proof (cases "k' = k")
    case True
    with "2.prems" show ?thesis by simp
  next
    case False
    with "2.prems" have "distinct (map fst (dict_set d k v))"
      using "2.IH" by simp
    moreover from False "2.prems" have "k' \<notin> set (map fst (dict_set d k v))"
      by (simp only: keys_dict_set) simp
    ultimately show ?thesis using False by simp
  qed
qed

lemma dict_set_nonempty: "dict_set d k v \<noteq> []"
  by (cases d) (auto split: if_splits)

subsection \<open>Tables: writing and reading\<close>

text \<open>No call of \<^verbatim>\<open>SSTable.write\<close> or of the constructor returns: the chained assignment
  raises, in \<^verbatim>\<open>write\<close> before the data file is opened. The loop \<^verbatim>\<open>write\<close> never reaches
  divides by \<^verbatim>\<open>INDEX_SAMPLE = 0\<close> at its first record.\<close>

lemma SSTable_init_raises: "SSTable_init d p = Inl TypeError"
  by (simp add: SSTable_init_def typing_Dict_setitem_def)

lemma SSTable_write_raises: "SSTable_write d p items = (Inl TypeError, d)"
  by (simp add: SSTable_write_def typing_Dict_setitem_def)

lemma write_loop_INDEX_SAMPLE:
  "items \<noteq> [] \<Longrightarrow> fst (write_loop INDEX_SAMPLE 0 items [] []) = Inl ZeroDivisionError"
  by (cases items) (auto simp: INDEX_SAMPLE_def)

lemma flush_nonempty_raises: "memtable e \<noteq> [] \<Longrightarrow> flush ts e = (Inl TypeError, e)"
  by (simp add: flush_def SSTable_write_raises)

lemma put_at_limit_raises:
  assumes "memtable_limit e \<le> int (length (dict_set (memtable e) key (Some val)))"
  shows "LSMEngine_put ts e key val =
           (Inl TypeError, e\<lparr>wal := WAL_append_put (wal e) key (Some val),
                             memtable := dict_set (memtable e) key (Some val)\<rparr>)"
  using assms by (simp add: LSMEngine_put_def flush_nonempty_raises dict_set_nonempty)

lemma compact_changes_nothing: "snd (compact ts e) = e"
  by (simp add: compact_def SSTable_write_raises split: sum.splits)

text \<open>What the text of the two lookups does on a table, were there one: a table with a
  sampled key not above the target is not scanned, and a tombstone found in a table does
  not end the search of the engine.\<close>

lemma SSTable_get_sampled_below:
  "(k, off) \<in> set (index sst) \<Longrightarrow> k \<le> key \<Longrightarrow> SSTable_get d sst key = Inr None"
  by (auto simp add: SSTable_get_def Let_def filter_empty_conv)

lemma get_sstables_passes_tombstone:
  "SSTable_get d sst key = Inr None \<Longrightarrow>
     get_sstables d (sst # rest) key = get_sstables d rest key"
  by (simp add: exists_in_sstable_def)

subsection \<open>The engines a run can hold\<close>

lemma init_sstables_none:
  "init_sstables d listing = Inr tables \<Longrightarrow> listing = [] \<and> tables = []"
  by (cases listing) (simp_all add: SSTable_init_raises)

lemma init_no_tables: "LSMEngine_init d w listing limit = Inr e \<Longrightarrow> sstables e = []"
  by (auto simp: LSMEngine_init_def dest: init_sstables_none split: sum.splits)

lemma flush_keeps_tables: "sstables (snd (flush ts e)) = sstables e"
  by (simp add: flush_def SSTable_write_raises)

lemma put_keeps_tables: "sstables (snd (LSMEngine_put ts e key val)) = sstables e"
  by (simp add: LSMEngine_put_def Let_def flush_keeps_tables)

lemma delete_keeps_tables: "sstables (snd (LSMEngine_delete ts e key)) = sstables e"
  by (simp add: LSMEngine_delete_def WAL_append_del_def)

lemma reachable_no_tables: "reachable e \<Longrightarrow> sstables e = []"
proof (induction rule: reachable.induct)
  case (opened listing d w limit e)
  then show ?case by (simp add: init_no_tables)
next
  case (after_put e ts key val)
  then show ?case by (simp add: put_keeps_tables)
next
  case (after_delete e ts key)
  then show ?case by (simp add: delete_keeps_tables)
next
  case (after_flush e ts)
  then show ?case by (simp add: flush_keeps_tables)
next
  case (after_compact e ts)
  then show ?case by (simp add: compact_changes_nothing)
qed

lemma reachable_compact_returns: "reachable e \<Longrightarrow> compact ts e = (Inr (), e)"
  by (simp add: compact_def reachable_no_tables)

lemma reachable_empty_engine: "reachable empty_engine"
proof -
  have "set [] = dom (files no_files)"
    by (simp add: no_files_def)
  moreover have "LSMEngine_init no_files no_wal [] 2000 = Inr empty_engine"
    by (simp add: LSMEngine_init_def WAL_replay_def no_wal_def empty_engine_def)
  ultimately show ?thesis by (rule reachable.opened)
qed

lemma reachable_small_engine: "reachable small_engine"
proof -
  have "set [] = dom (files no_files)"
    by (simp add: no_files_def)
  moreover have "LSMEngine_init no_files no_wal [] 1 = Inr small_engine"
    by (simp add: LSMEngine_init_def WAL_replay_def no_wal_def small_engine_def)
  ultimately show ?thesis by (rule reachable.opened)
qed

lemma insert_reaches_bob_stored:
  "Collection_insert 0 uuid plain_users bob (Some ''1'') [] = (Inr ''1'', bob_stored)"
  by (simp add: storage_defs document_defs state_defs)

lemma insert_reaches_users_with_bob:
  "Collection_insert 0 uuid users bob (Some ''1'') [] = (Inr ''1'', users_with_bob)"
  by (simp add: storage_defs document_defs state_defs)

lemma get_memtable_hit:
  "map_of (memtable e) key = Some v \<Longrightarrow> LSMEngine_get e key = Inr v"
  by (simp add: LSMEngine_get_def)



text \<open>
  C2. \<^verbatim>\<open>LSMEngine.delete(K)\<close> is claimed to append a del record for K to the log and then to
  set the memtable entry of K to the tombstone. On the code the first statement of
  \<^verbatim>\<open>delete\<close> raises \<^verbatim>\<open>AttributeError\<close> (class \<^verbatim>\<open>WAL\<close> has no \<^verbatim>\<open>append_del\<close>) for every
  engine, clock reading and key, and the engine is left as it was: no record is appended
  and no tombstone is set.
\<close>

theorem delete_raises_AttributeError:
  "LSMEngine_delete ts e key = (Inl AttributeError, e)"
  by (simp add: LSMEngine_delete_def WAL_append_del_def)

text \<open>
  C3. A key written and then deleted is claimed to read as absent and not to appear in
  \<^verbatim>\<open>find_all\<close>, wherever flushes fall. On the code the delete of \<^verbatim>\<open>users:1\<close> after its put
  raises and leaves the engine as the put left it, so \<^verbatim>\<open>get\<close> returns the document and
  \<^verbatim>\<open>find_all\<close> lists it. In the states a working delete would produce, \<^verbatim>\<open>find_all\<close> still
  lists the document when its tombstone is in the memtable above the value in a table
  (the scan adds no tombstone to \<open>seen\<close>), and both \<^verbatim>\<open>get\<close> and \<^verbatim>\<open>find_all\<close> return it when
  the tombstone is in a newer table.
\<close>

theorem deleted_key_still_visible:
  "LSMEngine_delete 1 (snd (LSMEngine_put 0 empty_engine ''users:1'' (JsonText bob))) ''users:1''
     = (Inl AttributeError, snd (LSMEngine_put 0 empty_engine ''users:1'' (JsonText bob)))
   \<and> LSMEngine_get (snd (LSMEngine_put 0 empty_engine ''users:1'' (JsonText bob))) ''users:1''
       = Inr (Some (JsonText bob))
   \<and> Collection_get
        (plain_users\<lparr>engine := snd (LSMEngine_put 0 empty_engine ''users:1'' (JsonText bob))\<rparr>)
        ''1'' = Inr (Some bob)
   \<and> find_all (plain_users\<lparr>engine := snd (LSMEngine_put 0 empty_engine ''users:1'' (JsonText bob))\<rparr>)
       = Inr [(''1'', bob)]
   \<and> Collection_get deleted_in_memtable ''1'' = Inr None
   \<and> find_all deleted_in_memtable = Inr [(''1'', bob)]
   \<and> Collection_get deleted_in_sstable ''1'' = Inr (Some bob)
   \<and> find_all deleted_in_sstable = Inr [(''1'', bob)]"
  by (simp add: storage_defs document_defs state_defs)

subsection \<open>Replay of the log\<close>

lemma replay_loop_records:
  "list_all wal_record ls \<Longrightarrow>
     \<exists>mem'. replay_loop mem ls = Inr mem'
        \<and> map_of mem' = foldl apply_record (map_of mem) ls
        \<and> (distinct (map fst mem) \<longrightarrow> distinct (map fst mem'))"
proof (induction ls arbitrary: mem)
  case Nil
  show ?case by simp
next
  case (Cons l ls)
  from Cons.prems obtain opname k v
    where l: "l = Obj (Some opname) (Some k) v" and op: "opname = ''put'' \<or> opname = ''del''"
    and rest: "list_all wal_record ls"
    by (cases l rule: wal_record.cases) auto
  define v' where "v' = (if opname = ''put'' then v else None)"
  have step: "replay_loop mem (l # ls) = replay_loop (dict_set mem k v') ls"
    using op by (auto simp: l v'_def)
  have "apply_record (map_of mem) l = (map_of mem)(k \<mapsto> v')"
    using op by (auto simp: l v'_def)
  then have ap: "apply_record (map_of mem) l = map_of (dict_set mem k v')"
    by (simp only: map_of_dict_set)
  from Cons.IH [OF rest, of "dict_set mem k v'"] obtain mem'
    where r: "replay_loop (dict_set mem k v') ls = Inr mem'"
      and m: "map_of mem' = foldl apply_record (map_of (dict_set mem k v')) ls"
      and d: "distinct (map fst (dict_set mem k v')) \<longrightarrow> distinct (map fst mem')"
    by blast
  have "replay_loop mem (l # ls) = Inr mem'"
    by (simp only: step r)
  moreover have "map_of mem' = foldl apply_record (map_of mem) (l # ls)"
    by (simp only: m foldl_Cons ap)
  moreover have "distinct (map fst mem) \<longrightarrow> distinct (map fst mem')"
    using d distinct_dict_set [of mem k v'] by simp
  ultimately show ?case by blast
qed

lemma replay_loop_corrupt:
  "list_all wal_record ls \<Longrightarrow> replay_loop mem (ls @ Corrupt # rest) = Inl JSONDecodeError"
proof (induction ls arbitrary: mem)
  case Nil
  show ?case by simp
next
  case (Cons l ls)
  from Cons.prems obtain opname k v
    where l: "l = Obj (Some opname) (Some k) v" and op: "opname = ''put'' \<or> opname = ''del''"
    and rest: "list_all wal_record ls"
    by (cases l rule: wal_record.cases) auto
  from op Cons.IH [OF rest] show ?case
    by (auto simp: l)
qed

text \<open>
  C4, as amended. For a log whose final line is unparseable while all earlier lines are
  well-formed put or del records, \<^verbatim>\<open>WAL.replay\<close> raises the JSON decode error of that line
  and returns no mapping: the code tolerates no torn write. The mapping folded from the
  earlier records (a put sets the key to its value, a del to the tombstone) is what replay
  returns for the log without the torn line, as a dictionary with distinct keys.
\<close>

theorem replay_torn_final_line:
  assumes "list_all wal_record good"
  shows "WAL_replay \<lparr>wal_lines = good @ [Corrupt], archived = a\<rparr> = Inl JSONDecodeError
       \<and> (\<exists>mem. WAL_replay \<lparr>wal_lines = good, archived = a\<rparr> = Inr mem
             \<and> map_of mem = fold_records good \<and> distinct (map fst mem))"
proof -
  have "WAL_replay \<lparr>wal_lines = good @ [Corrupt], archived = a\<rparr> = Inl JSONDecodeError"
    using replay_loop_corrupt [OF assms, of "[]" "[]"] by (simp add: WAL_replay_def)
  moreover from replay_loop_records [OF assms, of "[]"]
  have "\<exists>mem. WAL_replay \<lparr>wal_lines = good, archived = a\<rparr> = Inr mem
             \<and> map_of mem = fold_records good \<and> distinct (map fst mem)"
    by (auto simp: WAL_replay_def fold_records_def)
  ultimately show ?thesis by blast
qed

theorem replay_torn_final_line_witness:
  "list_all wal_record
     [Obj (Some ''put'') (Some ''a'') (Some ''1''), Obj (Some ''del'') (Some ''b'') None]
   \<and> WAL_replay
        \<lparr>wal_lines = [Obj (Some ''put'') (Some ''a'') (Some ''1''),
                      Obj (Some ''del'') (Some ''b'') None, Corrupt],
         archived = []\<rparr> = Inl JSONDecodeError
   \<and> WAL_replay
        \<lparr>wal_lines = [Obj (Some ''put'') (Some ''a'') (Some ''1''),
                      Obj (Some ''del'') (Some ''b'') None],
         archived = []\<rparr> = Inr [(''a'', Some ''1''), (''b'', None)]"
proof -
  have h: "list_all wal_record
      [Obj (Some ''put'') (Some ''a'') (Some (''1''::string)),
       Obj (Some ''del'') (Some ''b'') None]"
    by simp
  show ?thesis
    using h replay_torn_final_line [OF h, of "[]"] by (simp add: WAL_replay_def)
qed

text \<open>The claim as stated fails on a log of one put followed by a torn line: replay raises,
  where the claim asks for the mapping of the put.\<close>

theorem replay_torn_final_line_counterexample:
  "WAL_replay torn_wal = Inl JSONDecodeError
   \<and> WAL_replay (torn_wal\<lparr>wal_lines := butlast (wal_lines torn_wal)\<rparr>)
       = Inr [(''a'', Some ''1'')]"
  by (simp add: torn_wal_def WAL_replay_def)

subsection \<open>Flush\<close>

text \<open>
  C7. A put or delete that brings the memtable to its limit is claimed to trigger one
  flush that leaves the memtable empty, a new sorted table appended and the log retired
  and reopened empty. On the code the put on an engine of limit 1 calls \<^verbatim>\<open>flush\<close>, which
  raises \<^verbatim>\<open>TypeError\<close> in \<^verbatim>\<open>SSTable.write\<close>: the memtable keeps its entry, no table is
  appended and the log keeps its record. The delete raises before it writes anything.
\<close>

theorem put_at_threshold_raises:
  "LSMEngine_put 7 small_engine ''a'' ''1'' =
     (Inl TypeError,
      small_engine\<lparr>wal := \<lparr>wal_lines = [Obj (Some ''put'') (Some ''a'') (Some ''1'')],
                           archived = []\<rparr>,
                   memtable := [(''a'', Some ''1'')]\<rparr>)
   \<and> LSMEngine_delete 7 small_engine ''a'' = (Inl AttributeError, small_engine)"
  by (simp add: LSMEngine_put_def LSMEngine_delete_def WAL_append_del_def small_engine_def
      WAL_append_put_def no_wal_def flush_def SSTable_write_raises)

subsection \<open>Validation\<close>











subsection \<open>Update\<close>

lemma update_live_raises:
  "Collection_get c doc_id = Inr (Some cur) \<Longrightarrow>
     Collection_update ts c doc_id updates cols = (Inl AttributeError, c)"
  by (simp add: Collection_update_def model_cls_def)

lemma update_missing_raises:
  "Collection_get c doc_id = Inr None \<Longrightarrow>
     Collection_update ts c doc_id updates cols = (Inl KeyError, c)"
  by (simp add: Collection_update_def)

text \<open>
  C9. \<^verbatim>\<open>update(id, patch)\<close> on an existing document is claimed to overlay the patch on the
  current document, validate the result and write it under the same key, and on a missing
  identifier to fail with a not-found error. On the code the update of the stored document
  \<^verbatim>\<open>1\<close> raises \<^verbatim>\<open>AttributeError\<close> at \<^verbatim>\<open>self.model_cls\<close> and the document stays as it was;
  the update of the missing identifier \<^verbatim>\<open>2\<close> raises \<^verbatim>\<open>KeyError\<close>, as claimed.
\<close>

theorem update_raises:
  "Collection_update 3 bob_stored ''1'' [(''age'', VInt 31)] [] = (Inl AttributeError, bob_stored)
   \<and> Collection_get bob_stored ''1'' = Inr (Some bob)
   \<and> Collection_update 3 bob_stored ''2'' [(''age'', VInt 31)] [] = (Inl KeyError, bob_stored)"
  by (simp add: storage_defs document_defs state_defs)

subsection \<open>Writes below the threshold\<close>

lemma put_below_limit:
  assumes "int (length (dict_set (memtable e) key (Some val))) < memtable_limit e"
  shows "LSMEngine_put ts e key val =
           (Inr (), e\<lparr>wal := WAL_append_put (wal e) key (Some val),
                      memtable := dict_set (memtable e) key (Some val)\<rparr>)"
  using assms by (simp add: LSMEngine_put_def)

lemma get_after_set:
  "LSMEngine_get (e\<lparr>wal := w, memtable := dict_set (memtable e) key v\<rparr>) key = Inr v"
  by (simp add: LSMEngine_get_def map_of_dict_set)

text \<open>An insert that validation accepts fails, and writes nothing, when \<^verbatim>\<open>json.dumps\<close>
  raises on the document.\<close>

lemma insert_dumps_raises:
  assumes "gather_existing c (\<lambda>j. True) = Inr existing"
    and "case schema c of
           None \<Rightarrow> True
         | Some s \<Rightarrow> Schema_validate s d existing cols = Inr True
                      \<and> Schema_validate s d [] ([] :: (string \<times> 's Collection) list) = Inr True"
    and "dumps (json c) d = Inl err"
  shows "Collection_insert ts uuid (c :: 's Collection) d doc_id cols = (Inl err, c)"
proof -
  have stored: "to_stored c d = Inl err"
    using assms(2,3) by (simp add: to_stored_def split: option.splits)
  have ok: "(case schema c of None \<Rightarrow> Inr True
             | Some s \<Rightarrow> Schema_validate s d existing cols) = Inr True"
    using assms(2) by (simp split: option.splits)
  show ?thesis
    by (simp add: Collection_insert_def assms(1) validate_store_register_def ok stored)
qed

lemma insert_stores:
  assumes "gather_existing c (\<lambda>j. True) = Inr existing"
    and "case schema c of
           None \<Rightarrow> True
         | Some s \<Rightarrow> Schema_validate s d existing cols = Inr True
                      \<and> Schema_validate s d [] ([] :: (string \<times> 's Collection) list) = Inr True"
    and "dumps (json c) d = Inr raw"
    and "int (length (dict_set (memtable (engine c)) (prefix c @ i) (Some raw)))
           < memtable_limit (engine c)"
  shows "\<exists>c'. Collection_insert ts uuid (c :: 's Collection) d (Some i) cols = (Inr i, c')
              \<and> LSMEngine_get (engine c') (prefix c @ i) = Inr (Some raw)
              \<and> Collection_get c' i =
                  (case loads (json c) raw of Inl e \<Rightarrow> Inl e | Inr d' \<Rightarrow> Inr (Some d'))"
proof -
  have stored: "to_stored c d = Inr raw"
    using assms(2,3) by (simp add: to_stored_def split: option.splits)
  have ok: "(case schema c of None \<Rightarrow> Inr True
             | Some s \<Rightarrow> Schema_validate s d existing cols) = Inr True"
    using assms(2) by (simp split: option.splits)
  let ?eng = "(engine c)\<lparr>wal := WAL_append_put (wal (engine c)) (prefix c @ i) (Some raw),
                 memtable := dict_set (memtable (engine c)) (prefix c @ i) (Some raw)\<rparr>"
  let ?c' = "c\<lparr>engine := ?eng, schema := map_option (\<lambda>s. register s d) (schema c)\<rparr>"
  have "Collection_insert ts uuid c d (Some i) cols = (Inr i, ?c')"
    by (simp add: Collection_insert_def assms(1) validate_store_register_def ok stored
        put_below_limit [OF assms(4)])
  moreover have "LSMEngine_get (engine ?c') (prefix c @ i) = Inr (Some raw)"
    by (simp add: get_after_set)
  moreover have "Collection_get ?c' i =
                  (case loads (json c) raw of Inl e \<Rightarrow> Inl e | Inr d' \<Rightarrow> Inr (Some d'))"
    by (simp add: Collection_get_def from_stored_def get_after_set)
  ultimately show ?thesis by blast
qed

text \<open>
  C10, as amended. \<^verbatim>\<open>insert\<close> checks nowhere whether the identifier is in use. When the
  identifier given already names a live document, schema validation accepts the new
  document (it always does in a collection without schema), \<^verbatim>\<open>json.dumps\<close> returns a
  text for it and the write does not bring the memtable to its limit, the insert
  succeeds, returns the identifier and stores that text under the key; \<^verbatim>\<open>get\<close> of the
  identifier then returns what \<^verbatim>\<open>json.loads\<close> reads from the text. The insert fails when
  validation rejects the document (the document stored under the identifier counts among
  the existing documents of the uniqueness check) or \<^verbatim>\<open>json.dumps\<close> raises on it.
\<close>

theorem insert_live_id_overwrites:
  assumes "Collection_get c i = Inr (Some old)"
    and "gather_existing c (\<lambda>j. True) = Inr existing"
    and "case schema c of
           None \<Rightarrow> True
         | Some s \<Rightarrow> Schema_validate s d existing cols = Inr True
                      \<and> Schema_validate s d [] ([] :: (string \<times> 's Collection) list) = Inr True"
    and "dumps (json c) d = Inr raw"
    and "int (length (dict_set (memtable (engine c)) (prefix c @ i) (Some raw)))
           < memtable_limit (engine c)"
  shows "\<exists>c'. Collection_insert ts uuid (c :: 's Collection) d (Some i) cols = (Inr i, c')
              \<and> LSMEngine_get (engine c') (prefix c @ i) = Inr (Some raw)
              \<and> Collection_get c' i =
                  (case loads (json c) raw of Inl e \<Rightarrow> Inl e | Inr d' \<Rightarrow> Inr (Some d'))"
  by (rule insert_stores [OF assms(2,3,4,5)])

theorem insert_live_id_overwrites_witness:
  "Collection_get users_with_bob ''1'' = Inr (Some bob)
   \<and> gather_existing users_with_bob (\<lambda>j. True) = Inr [bob]
   \<and> Schema_validate (user_schema\<lparr>unique_values := [(''name'', [VStr ''Bob''])]\<rparr>)
        [(''name'', VStr ''Rob'')] [bob] ([] :: (string \<times> json_text Collection) list) = Inr True
   \<and> Schema_validate (user_schema\<lparr>unique_values := [(''name'', [VStr ''Bob''])]\<rparr>)
        [(''name'', VStr ''Rob'')] [] ([] :: (string \<times> json_text Collection) list) = Inr True
   \<and> dumps (json users_with_bob) [(''name'', VStr ''Rob'')]
        = Inr (JsonText [(''name'', VStr ''Rob'')])
   \<and> fst (Collection_insert 1 ''u'' users_with_bob [(''name'', VStr ''Rob'')] (Some ''1'') [])
        = Inr ''1''
   \<and> Collection_get
        (snd (Collection_insert 1 ''u'' users_with_bob [(''name'', VStr ''Rob'')] (Some ''1'') []))
        ''1'' = Inr (Some [(''name'', VStr ''Rob'')])"
proof -
  let ?s = "user_schema\<lparr>unique_values := [(''name'', [VStr ''Bob''])]\<rparr>"
  let ?d = "[(''name'', VStr ''Rob'')]"
  let ?none = "[] :: (string \<times> json_text Collection) list"
  have h1: "Collection_get users_with_bob ''1'' = Inr (Some bob)"
    by (simp add: storage_defs document_defs state_defs)
  have h2: "gather_existing users_with_bob (\<lambda>j. True) = Inr [bob]"
    by (auto simp add: storage_defs document_defs state_defs)
  have v1: "Schema_validate ?s ?d [bob] ?none = Inr True"
    by (simp add: document_defs state_defs)
  have v2: "Schema_validate ?s ?d [] ?none = Inr True"
    by (simp add: document_defs state_defs)
  have h3: "case schema users_with_bob of
           None \<Rightarrow> True
         | Some s \<Rightarrow> Schema_validate s ?d [bob] ?none = Inr True
                      \<and> Schema_validate s ?d [] ?none = Inr True"
    using v1 v2 by (simp add: users_with_bob_def)
  have h4: "dumps (json users_with_bob) ?d = Inr (JsonText ?d)"
    by (simp add: users_with_bob_def users_def python_json_def json_dumps_def)
  have h5: "int (length (dict_set (memtable (engine users_with_bob))
               (prefix users_with_bob @ ''1'') (Some (JsonText ?d))))
           < memtable_limit (engine users_with_bob)"
    by (simp add: users_with_bob_def users_def empty_engine_def)
  have l: "loads (json users_with_bob) (JsonText ?d) = Inr ?d"
    by (simp add: users_with_bob_def users_def python_json_def)
  from insert_live_id_overwrites [OF h1 h2 h3 h4 h5, of 1 "''u''"] l
  have "fst (Collection_insert 1 ''u'' users_with_bob ?d (Some ''1'') []) = Inr ''1''
     \<and> Collection_get (snd (Collection_insert 1 ''u'' users_with_bob ?d (Some ''1'') []))
          ''1'' = Inr (Some ?d)"
    by auto
  with h1 h2 v1 v2 h4 show ?thesis by simp
qed

text \<open>The claim as stated fails in a collection with a unique field: inserting, under the
  identifier of a live document, a document with the same unique value raises the
  uniqueness error and overwrites nothing.\<close>

theorem insert_live_id_overwrites_counterexample:
  "Collection_get users_with_bob ''1'' = Inr (Some bob)
   \<and> Collection_insert 1 ''u'' users_with_bob bob (Some ''1'') []
        = (Inl (ValueError Duplicate ''name''), users_with_bob)"
  by (simp add: storage_defs document_defs state_defs)

end
